theory Spec2Isabelle
  imports Complex_Main "HOL-Library.Sublist"
begin

section \<open>Data model\<close>

text \<open>
  \<^verbatim>\<open>sampler.py\<close> is a thin class, \<^verbatim>\<open>TDResampler\<close>, around a pandas DataFrame. The
  embedding keeps the class as a record and every method as a function on it. The pandas
  and pytz calls the methods make are written out as HOL functions that follow the
  documented behaviour of those libraries on the data the class holds:

  \<^item> a cell of a numeric column is a rational number or missing (pandas' NaN); the
    IEEE representation of the number is not modelled;
  \<^item> a row is keyed by one timestamp, an integer count of microseconds: wall-clock
    time for a naive index, the instant in UTC for a localized one;
  \<^item> the index carries the name of its time zone, or none (naive).
\<close>

type_synonym cell = "rat option"

record frame =
  index_tz :: "string option"
  columns :: "string list"
  rows :: "(int \<times> cell list) list"

text \<open>
  A time zone as pytz gives it: \<open>localize\<close> attaches the zone to a wall-clock time and
  returns the instant, or nothing when the wall-clock time is ambiguous or does not exist
  in the zone (pandas then raises); \<open>utcoffset\<close> is the zone's offset at an instant.
  The zone database itself, \<^verbatim>\<open>pytz.timezone\<close>, is a parameter \<open>tzdb\<close> of the functions
  that need it: an unknown name has no zone.
\<close>

record zone =
  localize :: "int \<Rightarrow> int option"
  utcoffset :: "int \<Rightarrow> int"

type_synonym tzdb = "string \<Rightarrow> zone option"

datatype py_error =
    UnknownTimeZoneError
  | TypeError
  | AmbiguousTimeError
  | KeyError
  | AttributeError
  | ValueError
  | SystemExit

datatype log_entry = Warning string | Error string

text \<open>
  The object and the part of the world its methods touch. \<open>datetime_col\<close> is a reference
  to a list object, as in Python: \<open>heap\<close> maps the address of a list object to its
  contents. \<open>logged\<close> is what \<^verbatim>\<open>LOGGER\<close> received at warning and error level (debug
  lines are left out), \<open>disk\<close> the files written by \<^verbatim>\<open>to_csv\<close>, each with its header
  flag.
\<close>

record td_state =
  csv_file :: string
  datetime_col :: nat
  df_orig :: frame
  output_header :: bool
  ohlc_dict :: "(string \<times> string) list option"
  df :: frame
  tz :: "string option"
  heap :: "nat \<Rightarrow> string list"
  logged :: "log_entry list"
  disk :: "(string \<times> bool \<times> frame) list"

type_synonym 'a result = "(py_error \<times> 'a) + 'a"

text \<open>
  A method that can raise returns the state together with the exception, or the state
  alone: \<open>state_of\<close> is the object and its world after the call either way, \<open>raised\<close>
  the exception, if any.
\<close>

definition state_of :: "'a result \<Rightarrow> 'a" where
  "state_of r = (case r of Inl (e, s) \<Rightarrow> s | Inr s \<Rightarrow> s)"

definition raised :: "'a result \<Rightarrow> py_error option" where
  "raised r = (case r of Inl (e, s) \<Rightarrow> Some e | Inr s \<Rightarrow> None)"

section \<open>Construction\<close>

text \<open>
  \<^verbatim>\<open>__init__\<close>: the file check exits the process when the path is no file; otherwise
  the table is read (\<open>fs\<close> gives the table \<^verbatim>\<open>read_csv\<close> parses from a path; which
  columns it reads, the field \<^verbatim>\<open>cols\<close>, is part of that) and the fields are initialised,
  \<open>ohlc_dict\<close> and \<open>tz\<close> to \<^verbatim>\<open>None\<close>.
\<close>

definition init :: "(string \<Rightarrow> frame option) \<Rightarrow> (nat \<Rightarrow> string list) \<Rightarrow> string \<Rightarrow> nat
    \<Rightarrow> py_error + td_state" where
  "init fs h file datetimecols =
     (case fs file of
        None \<Rightarrow> Inl SystemExit
      | Some table \<Rightarrow>
          Inr \<lparr>csv_file = file, datetime_col = datetimecols, df_orig = table,
               output_header = True, ohlc_dict = None, df = table, tz = None,
               heap = h, logged = [], disk = []\<rparr>)"

section \<open>Time zone conversion\<close>

text \<open>
  \<^verbatim>\<open>DatetimeIndex.tz_localize\<close> raises \<^verbatim>\<open>TypeError\<close> on an index that already has a
  zone, and an ambiguous or non-existent time error when a wall-clock time cannot be
  placed in the zone. \<^verbatim>\<open>tz_convert\<close> keeps the instants and changes the zone.
\<close>

fun localize_rows :: "zone \<Rightarrow> (int \<times> cell list) list \<Rightarrow> (int \<times> cell list) list option" where
  "localize_rows z [] = Some []"
| "localize_rows z ((t, cs) # rs) =
     (case localize z t of
        None \<Rightarrow> None
      | Some u \<Rightarrow> (case localize_rows z rs of None \<Rightarrow> None | Some rs' \<Rightarrow> Some ((u, cs) # rs')))"

definition tz_localize :: "string \<Rightarrow> zone \<Rightarrow> frame \<Rightarrow> py_error + frame" where
  "tz_localize name z f =
     (if index_tz f \<noteq> None then Inl TypeError
      else case localize_rows z (rows f) of
             None \<Rightarrow> Inl AmbiguousTimeError
           | Some rs \<Rightarrow> Inr (f\<lparr>index_tz := Some name, rows := rs\<rparr>))"

definition tz_convert :: "string \<Rightarrow> frame \<Rightarrow> frame" where
  "tz_convert name f = f\<lparr>index_tz := Some name\<rparr>"

text \<open>
  The right-hand side of the assignment in \<^verbatim>\<open>convert_tz\<close>, in Python's evaluation
  order: look \<open>from_tz\<close> up, localize, look \<open>to_tz\<close> up, convert.
\<close>

definition converted_index :: "tzdb \<Rightarrow> string \<Rightarrow> string \<Rightarrow> frame \<Rightarrow> py_error + frame" where
  "converted_index db from_tz to_tz f =
     (case db from_tz of
        None \<Rightarrow> Inl UnknownTimeZoneError
      | Some zf \<Rightarrow>
          (case tz_localize from_tz zf f of
             Inl e \<Rightarrow> Inl e
           | Inr f1 \<Rightarrow>
               (case db to_tz of
                  None \<Rightarrow> Inl UnknownTimeZoneError
                | Some zt \<Rightarrow> Inr (tz_convert to_tz f1))))"

text \<open>
  \<^verbatim>\<open>convert_tz\<close>: the \<^verbatim>\<open>try\<close> body assigns the new index and then the tag; the two
  handlers log and return, so the method never raises.
\<close>

definition convert_tz :: "tzdb \<Rightarrow> string \<Rightarrow> string \<Rightarrow> td_state \<Rightarrow> td_state" where
  "convert_tz db from_tz to_tz s =
     (case converted_index db from_tz to_tz (df s) of
        Inr f \<Rightarrow> s\<lparr>df := f, tz := Some to_tz\<rparr>
      | Inl UnknownTimeZoneError \<Rightarrow> s\<lparr>logged := logged s @ [Error ''UnknownTimeZoneError'']\<rparr>
      | Inl _ \<Rightarrow> s\<lparr>logged := logged s @ [Error ''Some exception'']\<rparr>)"

section \<open>Cutoff\<close>

text \<open>
  The time of day of a row is read from the wall clock of its index: the key itself for
  a naive index, the instant shifted by the zone's offset for a localized one.
\<close>

definition us_per_day :: int where
  "us_per_day = 86400000000"

definition wall_clock :: "tzdb \<Rightarrow> frame \<Rightarrow> int \<Rightarrow> int" where
  "wall_clock db f t =
     (case index_tz f of
        None \<Rightarrow> t
      | Some name \<Rightarrow> (case db name of None \<Rightarrow> t | Some z \<Rightarrow> t + utcoffset z t))"

definition time_of_day :: "tzdb \<Rightarrow> frame \<Rightarrow> int \<Rightarrow> int" where
  "time_of_day db f t = wall_clock db f t mod us_per_day"

text \<open>
  \<^verbatim>\<open>DataFrame.between_time(start, end)\<close> with both ends included (the default). pandas
  joins the two comparisons with "and" when \<open>start \<le> end\<close> and with "or" otherwise, so
  that a window whose start is later than its end runs over midnight.
\<close>

definition between_time :: "tzdb \<Rightarrow> int \<Rightarrow> int \<Rightarrow> frame \<Rightarrow> frame" where
  "between_time db start_time end_time f =
     f\<lparr>rows := filter (\<lambda>r. let t = time_of_day db f (fst r) in
                        if start_time \<le> end_time then start_time \<le> t \<and> t \<le> end_time
                        else start_time \<le> t \<or> t \<le> end_time) (rows f)\<rparr>"

text \<open>
  \<^verbatim>\<open>df.query("index > '...'")\<close> and \<^verbatim>\<open>df.query("index < '...'")\<close>: the date is the
  timestamp pandas parses from the quoted text, on the axis of the index keys.
\<close>

definition query_index_gt :: "int \<Rightarrow> frame \<Rightarrow> frame" where
  "query_index_gt d f = f\<lparr>rows := filter (\<lambda>r. d < fst r) (rows f)\<rparr>"

definition query_index_lt :: "int \<Rightarrow> frame \<Rightarrow> frame" where
  "query_index_lt d f = f\<lparr>rows := filter (\<lambda>r. fst r < d) (rows f)\<rparr>"

text \<open>
  \<^verbatim>\<open>apply_cutoff\<close>: an argument left at its default \<^verbatim>\<open>-1\<close> is \<open>None\<close>. The three
  \<^verbatim>\<open>if\<close> statements run in the order of the source.
\<close>

definition apply_cutoff :: "tzdb \<Rightarrow> int option \<Rightarrow> int option \<Rightarrow> int option \<Rightarrow> int option
    \<Rightarrow> td_state \<Rightarrow> td_state" where
  "apply_cutoff db start_time end_time start_date end_date s =
     (let s1 = (case (start_time, end_time) of
                  (Some a, Some b) \<Rightarrow> s\<lparr>df := between_time db a b (df s)\<rparr>
                | _ \<Rightarrow> s);
          s2 = (case start_date of
                  Some d \<Rightarrow> s1\<lparr>df := query_index_gt d (df s1)\<rparr>
                | None \<Rightarrow> s1);
          s3 = (case end_date of
                  Some d \<Rightarrow> s2\<lparr>df := query_index_lt d (df s2)\<rparr>
                | None \<Rightarrow> s2)
      in s3)"

section \<open>Precision\<close>

text \<open>
  \<^verbatim>\<open>DataFrame.round(decimals)\<close> rounds every numeric cell to the given number of
  decimal places, halves to the even neighbour (numpy's \<^verbatim>\<open>around\<close>: scale by the power
  of ten, round to the nearest integer, scale back; a negative count rounds to tens,
  hundreds, ...). A missing cell stays missing.
\<close>

definition round_half_even :: "rat \<Rightarrow> int" where
  "round_half_even x =
     (let n = \<lfloor>x\<rfloor>; d = x - of_int n
      in if d < 1 / 2 then n else if 1 / 2 < d then n + 1 else if even n then n else n + 1)"

definition around :: "int \<Rightarrow> rat \<Rightarrow> rat" where
  "around decimals x =
     (if 0 \<le> decimals
      then of_int (round_half_even (x * 10 ^ nat decimals)) / 10 ^ nat decimals
      else of_int (round_half_even (x / 10 ^ nat (- decimals))) * 10 ^ nat (- decimals))"

definition round_frame :: "int \<Rightarrow> frame \<Rightarrow> frame" where
  "round_frame decimals f =
     f\<lparr>rows := map (\<lambda>(t, cs). (t, map (map_option (around decimals)) cs)) (rows f)\<rparr>"

text \<open>
  \<^verbatim>\<open>apply_precision\<close>: the constructor always stores a frame in \<open>df\<close> and no method
  stores \<^verbatim>\<open>None\<close> there, so the guard \<^verbatim>\<open>self.df is not None\<close> holds.
\<close>

definition apply_precision :: "int \<Rightarrow> td_state \<Rightarrow> td_state" where
  "apply_precision precision s = s\<lparr>df := round_frame precision (df s)\<rparr>"

section \<open>Resampling\<close>

text \<open>
  \<^verbatim>\<open>DataFrame.resample(rule, **param_dict)\<close> cuts the time axis into contiguous
  buckets: a binning gives the bucket number of every timestamp and the label of every
  bucket. A grouper gives the binning for a rule, the keyword options and the zone of
  the index, or nothing when pandas rejects the rule or an option.
\<close>

record binning =
  bucket_of :: "int \<Rightarrow> int"
  label_of :: "int \<Rightarrow> int"

type_synonym grouper = "string \<Rightarrow> (string \<times> string) list \<Rightarrow> string option \<Rightarrow> binning option"

text \<open>
  What pandas knows beyond what is written out below is a parameter of the embedding:
  the binnings of further rules, of further options and of a localized index, and
  further named reductions.
\<close>

record pandas =
  more_rules :: grouper
  more_reductions :: "string \<Rightarrow> (cell list \<Rightarrow> cell) option"

text \<open>
  The options \<open>closed\<close> and \<open>label\<close>, each \<^verbatim>\<open>'left'\<close> or \<^verbatim>\<open>'right'\<close>, with the default
  the rule gives them.
\<close>

definition known_options :: "(string \<times> string) list \<Rightarrow> bool" where
  "known_options param_dict =
     list_all (\<lambda>(k, v). (k = ''closed'' \<or> k = ''label'') \<and> (v = ''left'' \<or> v = ''right''))
       param_dict"

definition option_of :: "(string \<times> string) list \<Rightarrow> string \<Rightarrow> string \<Rightarrow> string" where
  "option_of param_dict k dflt = (case map_of param_dict k of Some v \<Rightarrow> v | None \<Rightarrow> dflt)"

text \<open>
  Days, the rule \<^verbatim>\<open>'D'\<close>: bucket \<open>b\<close> is day \<open>b\<close> since the epoch, from midnight to
  midnight, the midnight at the closed end included.
\<close>

definition day_binning :: "string \<Rightarrow> string \<Rightarrow> binning" where
  "day_binning cl lb =
     \<lparr>bucket_of = (\<lambda>t. if cl = ''right'' then (t - 1) div us_per_day else t div us_per_day),
      label_of = (\<lambda>b. (if lb = ''right'' then b + 1 else b) * us_per_day)\<rparr>"

text \<open>
  Weeks. The day on which the weeks of a weekly rule end is read from pandas' table of
  anchored offsets: \<^verbatim>\<open>W-MON\<close>, ..., \<^verbatim>\<open>W-SUN\<close>, with \<^verbatim>\<open>W\<close> alone standing for \<^verbatim>\<open>W-SUN\<close>;
  a rule that is not weekly has no such day. Day 0 of the epoch, 1 January 1970, was a
  Thursday, so the number of the weekday of a timestamp, Monday being 0, is as
  \<open>weekday_number\<close> has it.

  The bucket edges of a weekly rule are the midnights that begin the anchor day. Closed
  on the left, a bucket runs from such a midnight to the next. Closed on the right (the
  default of a weekly rule), pandas moves every edge to the end of its day, so that a
  bucket is the seven whole days that end with the anchor day. The label is the edge at
  the left or at the right of the bucket (the right one by default), as the midnight
  that begins the anchor day.
\<close>

datatype weekday = MON | TUE | WED | THU | FRI | SAT | SUN

fun weekday_index :: "weekday \<Rightarrow> int" where
  "weekday_index MON = 0"
| "weekday_index TUE = 1"
| "weekday_index WED = 2"
| "weekday_index THU = 3"
| "weekday_index FRI = 4"
| "weekday_index SAT = 5"
| "weekday_index SUN = 6"

definition weekday_number :: "int \<Rightarrow> int" where
  "weekday_number t = (t div us_per_day + 3) mod 7"

definition weekly_anchor :: "string \<Rightarrow> weekday option" where
  "weekly_anchor rule =
     (if rule = ''W'' \<or> rule = ''W-SUN'' then Some SUN
      else if rule = ''W-MON'' then Some MON
      else if rule = ''W-TUE'' then Some TUE
      else if rule = ''W-WED'' then Some WED
      else if rule = ''W-THU'' then Some THU
      else if rule = ''W-FRI'' then Some FRI
      else if rule = ''W-SAT'' then Some SAT
      else None)"

definition week_binning :: "weekday \<Rightarrow> string \<Rightarrow> string \<Rightarrow> binning" where
  "week_binning a cl lb =
     (if cl = ''right''
      then \<lparr>bucket_of = (\<lambda>t. (t div us_per_day + 2 - weekday_index a) div 7),
            label_of = (\<lambda>b. (7 * b + 4 + weekday_index a - (if lb = ''right'' then 0 else 7))
                              * us_per_day)\<rparr>
      else \<lparr>bucket_of = (\<lambda>t. (t div us_per_day + 3 - weekday_index a) div 7),
            label_of = (\<lambda>b. (7 * b - 3 + weekday_index a + (if lb = ''right'' then 7 else 0))
                              * us_per_day)\<rparr>)"

text \<open>
  The grouper of pandas: days and weeks on an index without a zone, with the options
  \<open>closed\<close> and \<open>label\<close>, as written out above; anything else as the parameter has it.
\<close>

definition pandas_grouper :: "grouper \<Rightarrow> grouper" where
  "pandas_grouper rest rule param_dict z =
     (if z = None \<and> known_options param_dict then
        (if rule = ''D'' then
           Some (day_binning (option_of param_dict ''closed'' ''left'')
                   (option_of param_dict ''label'' ''left''))
         else case weekly_anchor rule of
                Some a \<Rightarrow> Some (week_binning a (option_of param_dict ''closed'' ''right'')
                                  (option_of param_dict ''label'' ''right''))
              | None \<Rightarrow> rest rule param_dict z)
      else rest rule param_dict z)"

text \<open>
  The reductions \<^verbatim>\<open>agg\<close> finds by name, on the cells of one column in one bucket, in
  row order. Each skips missing cells, but \<^verbatim>\<open>size\<close>, which counts rows. With no value
  left, \<^verbatim>\<open>first\<close>, \<^verbatim>\<open>last\<close>, \<^verbatim>\<open>min\<close>, \<^verbatim>\<open>max\<close> and \<^verbatim>\<open>mean\<close> are missing, \<^verbatim>\<open>sum\<close>,
  \<^verbatim>\<open>count\<close>, \<^verbatim>\<open>size\<close> and \<^verbatim>\<open>nunique\<close> are 0 and \<^verbatim>\<open>prod\<close> is 1. Any other name is
  looked up in the parameter; a name pandas does not know has no reduction.
\<close>

definition present :: "cell list \<Rightarrow> rat list" where
  "present cs = map the (filter (\<lambda>c. c \<noteq> None) cs)"

definition reduction :: "(string \<Rightarrow> (cell list \<Rightarrow> cell) option) \<Rightarrow> string
    \<Rightarrow> (cell list \<Rightarrow> cell) option" where
  "reduction rest name =
     (if name = ''first'' then
        Some (\<lambda>cs. case present cs of [] \<Rightarrow> None | v # vs \<Rightarrow> Some v)
      else if name = ''last'' then
        Some (\<lambda>cs. case present cs of [] \<Rightarrow> None | v # vs \<Rightarrow> Some (last (v # vs)))
      else if name = ''min'' then
        Some (\<lambda>cs. case present cs of [] \<Rightarrow> None | v # vs \<Rightarrow> Some (fold min vs v))
      else if name = ''max'' then
        Some (\<lambda>cs. case present cs of [] \<Rightarrow> None | v # vs \<Rightarrow> Some (fold max vs v))
      else if name = ''sum'' then
        Some (\<lambda>cs. Some (sum_list (present cs)))
      else if name = ''mean'' then
        Some (\<lambda>cs. case present cs of [] \<Rightarrow> None
                   | v # vs \<Rightarrow> Some (sum_list (v # vs) / of_nat (length (v # vs))))
      else if name = ''count'' then
        Some (\<lambda>cs. Some (of_nat (length (present cs))))
      else if name = ''size'' then
        Some (\<lambda>cs. Some (of_nat (length cs)))
      else if name = ''nunique'' then
        Some (\<lambda>cs. Some (of_nat (length (remdups (present cs)))))
      else if name = ''prod'' then
        Some (\<lambda>cs. Some (prod_list (present cs)))
      else rest name)"

text \<open>
  Whether the reduction of a name is missing on a bucket without rows.
\<close>

definition missing_on_empty :: "(string \<Rightarrow> (cell list \<Rightarrow> cell) option) \<Rightarrow> string \<Rightarrow> bool" where
  "missing_on_empty rest name =
     (case reduction rest name of None \<Rightarrow> False | Some red \<Rightarrow> red [] = None)"

fun col_index :: "string list \<Rightarrow> string \<Rightarrow> nat option" where
  "col_index [] c = None"
| "col_index (x # xs) c = (if x = c then Some 0 else map_option Suc (col_index xs c))"

definition cell_at :: "cell list \<Rightarrow> nat \<Rightarrow> cell" where
  "cell_at cs i = (if i < length cs then cs ! i else None)"

text \<open>
  \<^verbatim>\<open>agg(ohlc_dict)\<close> first resolves the dictionary, kept as an association list in
  insertion order: a key that is no column of the frame is a \<^verbatim>\<open>KeyError\<close>, an unknown
  reduction name an \<^verbatim>\<open>AttributeError\<close>, and an empty dictionary leaves nothing to put
  together (\<^verbatim>\<open>ValueError\<close>).
\<close>

definition agg_plan :: "(string \<Rightarrow> (cell list \<Rightarrow> cell) option) \<Rightarrow> string list
    \<Rightarrow> (string \<times> string) list \<Rightarrow> py_error + (nat \<times> (cell list \<Rightarrow> cell)) list" where
  "agg_plan rest cols d =
     (if d = [] then Inl ValueError
      else if \<exists>(c, fn) \<in> set d. col_index cols c = None then Inl KeyError
      else if \<exists>(c, fn) \<in> set d. reduction rest fn = None then Inl AttributeError
      else Inr (map (\<lambda>(c, fn). (the (col_index cols c), the (reduction rest fn))) d))"

text \<open>
  The buckets run from the one of the earliest timestamp to the one of the latest, the
  empty ones in between included. The rows of a bucket are taken in timestamp order
  (pandas sorts the axis first, keeping the order of equal timestamps).
\<close>

definition bucket_span :: "binning \<Rightarrow> (int \<times> cell list) list \<Rightarrow> int list" where
  "bucket_span bn rs =
     (case rs of
        [] \<Rightarrow> []
      | r # rest \<Rightarrow> [bucket_of bn (fold min (map fst rest) (fst r)) ..
                     bucket_of bn (fold max (map fst rest) (fst r))])"

definition bucket_rows :: "binning \<Rightarrow> (int \<times> cell list) list \<Rightarrow> int \<Rightarrow> (int \<times> cell list) list" where
  "bucket_rows bn rs b = filter (\<lambda>r. bucket_of bn (fst r) = b) (sort_key fst rs)"

definition aggregate :: "(nat \<times> (cell list \<Rightarrow> cell)) list \<Rightarrow> binning \<Rightarrow> (int \<times> cell list) list
    \<Rightarrow> int \<Rightarrow> cell list" where
  "aggregate plan bn rs b =
     map (\<lambda>(i, red). red (map (\<lambda>r. cell_at (snd r) i) (bucket_rows bn rs b))) plan"

definition agg_frame :: "(nat \<times> (cell list \<Rightarrow> cell)) list \<Rightarrow> binning \<Rightarrow> string list \<Rightarrow> frame
    \<Rightarrow> frame" where
  "agg_frame plan bn names f =
     f\<lparr>columns := names,
       rows := map (\<lambda>b. (label_of bn b, aggregate plan bn (rows f) b)) (bucket_span bn (rows f))\<rparr>"

text \<open>\<^verbatim>\<open>dropna(how='any')\<close>: a row with a missing cell goes.\<close>

definition dropna_any :: "frame \<Rightarrow> frame" where
  "dropna_any f = f\<lparr>rows := filter (\<lambda>r. \<forall>c \<in> set (snd r). c \<noteq> None) (rows f)\<rparr>"

text \<open>
  The expression both branches of \<^verbatim>\<open>resample\<close> share,
  \<^verbatim>\<open>self.df.resample(rule, **param_dict).agg(ohlc_dict).dropna(how='any')\<close>, assigned
  to \<open>df\<close>. An exception leaves the object as it is at the raise.
\<close>

definition resample_with :: "pandas \<Rightarrow> string \<Rightarrow> (string \<times> string) list \<Rightarrow> (string \<times> string) list
    \<Rightarrow> td_state \<Rightarrow> td_state result" where
  "resample_with p rule d param_dict s =
     (case pandas_grouper (more_rules p) rule param_dict (index_tz (df s)) of
        None \<Rightarrow> Inl (ValueError, s)
      | Some bn \<Rightarrow>
          (case agg_plan (more_reductions p) (columns (df s)) d of
             Inl e \<Rightarrow> Inl (e, s)
           | Inr plan \<Rightarrow> Inr (s\<lparr>df := dropna_any (agg_frame plan bn (map fst d) (df s))\<rparr>)))"

text \<open>
  \<^verbatim>\<open>resample\<close>: the dictionary is stored first; the interval \<^verbatim>\<open>'W'\<close> is replaced by
  the rule \<^verbatim>\<open>'W-FRI'\<close>, any other interval is the rule. The frame the method returns is
  the \<open>df\<close> of the state returned here.
\<close>

definition resample :: "pandas \<Rightarrow> string \<Rightarrow> (string \<times> string) list \<Rightarrow> (string \<times> string) list
    \<Rightarrow> td_state \<Rightarrow> td_state result" where
  "resample p interval d param_dict s =
     (let s1 = s\<lparr>ohlc_dict := Some d\<rparr>
      in if interval = ''W'' then resample_with p ''W-FRI'' d param_dict s1
         else resample_with p interval d param_dict s1)"

section \<open>Export\<close>

text \<open>
  The default value of \<^verbatim>\<open>columns\<close> is one list object, made when \<^verbatim>\<open>write_csv\<close> is
  defined and shared by every call that passes no list; the default of
  \<^verbatim>\<open>datetimecols\<close> is another. \<open>initial_heap\<close> holds the two at their addresses.
\<close>

definition write_csv_default :: nat where
  "write_csv_default = 0"

definition init_default :: nat where
  "init_default = 1"

definition initial_heap :: "nat \<Rightarrow> string list" where
  "initial_heap =
     (\<lambda>a. [])(write_csv_default := [''Open'', ''High'', ''Low'', ''Close'', ''Up'', ''Down''],
              init_default := [''Date'', ''Time''])"

text \<open>
  The first loop of \<^verbatim>\<open>write_csv\<close>. A Python \<^verbatim>\<open>for\<close> over a list keeps a position and
  reads the list afresh at every step; \<^verbatim>\<open>list.remove\<close> deletes the first occurrence.
  \<open>dc\<close> is the address of \<open>datetime_col\<close>, \<open>c\<close> the address of \<open>columns\<close>.
\<close>

function remove_datetime_cols :: "nat \<Rightarrow> nat \<Rightarrow> nat \<Rightarrow> (nat \<Rightarrow> string list) \<Rightarrow> (nat \<Rightarrow> string list)" where
  "remove_datetime_cols dc c i h =
     (if i < length (h dc)
      then remove_datetime_cols dc c (Suc i)
             (if h dc ! i \<in> set (h c) then h(c := remove1 (h dc ! i) (h c)) else h)
      else h)"
  by pat_completeness auto
termination
  by (relation "measure (\<lambda>(dc, c, i, h). length (h dc) - i)") (auto simp: length_remove1)

text \<open>
  The second loop runs over \<open>columns\<close> itself and removes from it while it runs; every
  removal logs a warning.
\<close>

function discard_cols :: "string list \<Rightarrow> nat \<Rightarrow> nat \<Rightarrow> (nat \<Rightarrow> string list) \<times> log_entry list
    \<Rightarrow> (nat \<Rightarrow> string list) \<times> log_entry list" where
  "discard_cols keys c i (h, lg) =
     (if i < length (h c)
      then if h c ! i \<notin> set keys
           then discard_cols keys c (Suc i)
                  (h(c := remove1 (h c ! i) (h c)),
                   lg @ [Warning (''col '' @ h c ! i @ '' not in resampled data. discarded.'')])
           else discard_cols keys c (Suc i) (h, lg)
      else (h, lg))"
  by pat_completeness auto
termination
  by (relation "measure (\<lambda>(keys, c, i, h, lg). length (h c) - i)") (auto simp: length_remove1)

declare remove_datetime_cols.simps [simp del]
declare discard_cols.simps [simp del]

text \<open>
  Two names that both are no keys and stand next to each other in a list: the second
  loop removes the first and, its position having moved on, never looks at the second.
\<close>

fun adjacent_discards :: "string list \<Rightarrow> string list \<Rightarrow> bool" where
  "adjacent_discards keys (x # y # ys) =
     ((x \<notin> set keys \<and> y \<notin> set keys) \<or> adjacent_discards keys (y # ys))"
| "adjacent_discards keys ys = False"

text \<open>
  \<^verbatim>\<open>self.df[columns]\<close>: the named columns in the order of the list, a \<^verbatim>\<open>KeyError\<close>
  when a name is no column of the frame.
\<close>

definition select_columns :: "string list \<Rightarrow> frame \<Rightarrow> frame option" where
  "select_columns names f =
     (if \<exists>n \<in> set names. col_index (columns f) n = None then None
      else Some (f\<lparr>columns := names,
                   rows := map (\<lambda>(t, cs). (t, map (\<lambda>n. cell_at cs (the (col_index (columns f) n))) names))
                             (rows f)\<rparr>))"

text \<open>
  \<^verbatim>\<open>write_csv\<close>: \<open>columns\<close> is the address of the list the caller passes, or nothing
  when the default is used. \<^verbatim>\<open>self.ohlc_dict.keys()\<close> fails on \<^verbatim>\<open>None\<close>.
\<close>

definition write_csv :: "string \<Rightarrow> nat option \<Rightarrow> td_state \<Rightarrow> td_state result" where
  "write_csv outfile columns_arg s =
     (let c = (case columns_arg of None \<Rightarrow> write_csv_default | Some a \<Rightarrow> a);
          s1 = s\<lparr>heap := remove_datetime_cols (datetime_col s) c 0 (heap s)\<rparr>
      in case ohlc_dict s1 of
           None \<Rightarrow> Inl (AttributeError, s1)
         | Some d \<Rightarrow>
             (case discard_cols (map fst d) c 0 (heap s1, logged s1) of
                (h2, lg) \<Rightarrow>
                  (let s2 = s1\<lparr>heap := h2, logged := lg\<rparr>
                   in case select_columns (h2 c) (df s2) of
                        None \<Rightarrow> Inl (KeyError, s2)
                      | Some f \<Rightarrow>
                          Inr (s2\<lparr>df := f,
                                   disk := disk s2 @ [(outfile, output_header s2, f)]\<rparr>))))"

text \<open>The rule \<^verbatim>\<open>resample\<close> hands to pandas.\<close>

definition resample_rule :: "string \<Rightarrow> string" where
  "resample_rule interval = (if interval = ''W'' then ''W-FRI'' else interval)"

text \<open>
  The buckets whose aggregate row has no missing cell: the ones \<^verbatim>\<open>dropna\<close> keeps.
\<close>

definition retained_buckets :: "(nat \<times> (cell list \<Rightarrow> cell)) list \<Rightarrow> binning \<Rightarrow> (int \<times> cell list) list
    \<Rightarrow> int list" where
  "retained_buckets plan bn rs =
     filter (\<lambda>b. \<forall>c \<in> set (aggregate plan bn rs b). c \<noteq> None) (bucket_span bn rs)"

section \<open>Example data\<close>

text \<open>
  The options of the script at the end of \<^verbatim>\<open>sampler.py\<close>; calendar days as buckets,
  closed on the left and labelled on the right, as these options ask; and a pandas that
  knows no rule and no reduction beyond the ones written out.
\<close>

definition RESAMPLE :: "(string \<times> string) list" where
  "RESAMPLE = [(''closed'', ''left''), (''label'', ''right'')]"

definition daily :: binning where
  "daily = day_binning ''left'' ''right''"

definition plain_pandas :: pandas where
  "plain_pandas = \<lparr>more_rules = (\<lambda>rule param_dict z. None), more_reductions = (\<lambda>name. None)\<rparr>"

text \<open>Two zones at fixed offsets: UTC, and five hours behind it.\<close>

definition us_per_hour :: int where
  "us_per_hour = 3600000000"

definition fixed_zone :: "int \<Rightarrow> zone" where
  "fixed_zone off = \<lparr>localize = (\<lambda>t. Some (t - off)), utcoffset = (\<lambda>t. off)\<rparr>"

definition example_tzdb :: tzdb where
  "example_tzdb name =
     (if name = ''UTC'' then Some (fixed_zone 0)
      else if name = ''Etc/GMT+5'' then Some (fixed_zone (- 5 * us_per_hour))
      else None)"

text \<open>
  A table of three bars: 09:00 and 23:00 on the first day, a Thursday, and 10:00 on the
  third day, a Saturday.
\<close>

definition example_frame :: frame where
  "example_frame =
     \<lparr>index_tz = None,
      columns = [''Open'', ''High'', ''Low'', ''Close'', ''Up'', ''Down''],
      rows = [(9 * us_per_hour, [Some 10, Some 12, Some 9, Some 11, Some 5, Some 3]),
              (23 * us_per_hour, [Some 11, Some 13, Some 10, Some (49 / 4), Some 2, Some 4]),
              (58 * us_per_hour, [Some 12, Some 14, Some 11, Some (1069 / 80), Some 7, Some 1])]\<rparr>"

definition example_state :: td_state where
  "example_state =
     \<lparr>csv_file = ''input.csv'', datetime_col = init_default, df_orig = example_frame,
      output_header = True, ohlc_dict = None, df = example_frame, tz = None,
      heap = initial_heap, logged = [], disk = []\<rparr>"

text \<open>
  The example object after a daily resampling with the dictionary \<open>d\<close>, and the same
  with a list of the caller's own at address 2.
\<close>

definition example_resampled :: "(string \<times> string) list \<Rightarrow> td_state" where
  "example_resampled d = state_of (resample plain_pandas ''D'' d RESAMPLE example_state)"

definition example_caller :: "(string \<times> string) list \<Rightarrow> string list \<Rightarrow> td_state" where
  "example_caller d names =
     (example_resampled d)\<lparr>heap := (heap (example_resampled d))(2 := names)\<rparr>"

section \<open>Time zone conversion: properties\<close>

text \<open>
  C5. A conversion that fails, on an unknown zone name or on anything else, is not fatal:
  \<open>convert_tz\<close> returns, one error line is logged, and the table (its timestamps and the
  zone of its index) and the \<open>tz\<close> tag are what they were. An unknown \<open>from_tz\<close> or \<open>to_tz\<close>
  always makes the conversion fail.
\<close>

theorem convert_tz_failure_leaves_table:
  "(db from_tz = None \<or> db to_tz = None \<longrightarrow>
      (\<exists>e. converted_index db from_tz to_tz (df s) = Inl e))
   \<and> (\<forall>e. converted_index db from_tz to_tz (df s) = Inl e \<longrightarrow>
        convert_tz db from_tz to_tz s =
          s\<lparr>logged := logged s @
               [Error (if e = UnknownTimeZoneError then ''UnknownTimeZoneError''
                       else ''Some exception'')]\<rparr>
        \<and> df (convert_tz db from_tz to_tz s) = df s
        \<and> tz (convert_tz db from_tz to_tz s) = tz s)"
  by (auto simp add: converted_index_def convert_tz_def
      split: option.splits sum.splits py_error.splits)

theorem convert_tz_failure_leaves_table_witness:
  "convert_tz example_tzdb ''US/Nowhere'' ''UTC'' example_state =
     example_state\<lparr>logged := [Error ''UnknownTimeZoneError'']\<rparr>"
proof -
  have unknown: "example_tzdb ''US/Nowhere'' = None"
    by (simp add: example_tzdb_def)
  then have failed: "converted_index example_tzdb ''US/Nowhere'' ''UTC'' (df example_state) =
      Inl UnknownTimeZoneError"
    by (simp add: converted_index_def)
  have "convert_tz example_tzdb ''US/Nowhere'' ''UTC'' example_state =
      example_state\<lparr>logged := logged example_state @ [Error ''UnknownTimeZoneError'']\<rparr>"
    using failed convert_tz_failure_leaves_table [of example_tzdb "''US/Nowhere''" "''UTC''"
        example_state]
    by simp
  then show ?thesis
    by (simp add: example_state_def)
qed

text \<open>
  C4, as the code has it. \<open>convert_tz\<close> always starts with \<^verbatim>\<open>tz_localize\<close>, which pandas
  refuses on an index that already has a zone. On a localized table the call therefore
  converts nothing: it logs one error line and leaves the table and the tag as they
  were.
\<close>

theorem convert_tz_localized_unchanged:
  "index_tz (df s) \<noteq> None \<Longrightarrow>
     convert_tz db from_tz to_tz s =
       s\<lparr>logged := logged s @
            [Error (if db from_tz = None then ''UnknownTimeZoneError'' else ''Some exception'')]\<rparr>"
  by (auto simp add: converted_index_def convert_tz_def tz_localize_def split: option.splits)

theorem convert_tz_localized_unchanged_witness:
  "convert_tz example_tzdb ''Etc/GMT+5'' ''UTC''
     (convert_tz example_tzdb ''UTC'' ''Etc/GMT+5'' example_state) =
   (convert_tz example_tzdb ''UTC'' ''Etc/GMT+5'' example_state)
     \<lparr>logged := [Error ''Some exception'']\<rparr>"
proof -
  let ?s = "convert_tz example_tzdb ''UTC'' ''Etc/GMT+5'' example_state"
  have localized: "index_tz (df ?s) \<noteq> None" and nothing_logged: "logged ?s = []"
    by (simp_all add: convert_tz_def converted_index_def tz_localize_def tz_convert_def
        example_tzdb_def example_state_def example_frame_def fixed_zone_def)
  have known: "example_tzdb ''Etc/GMT+5'' \<noteq> None"
    by (simp add: example_tzdb_def)
  show ?thesis
    using convert_tz_localized_unchanged [OF localized, of example_tzdb "''Etc/GMT+5''" "''UTC''"]
      known nothing_logged
    by simp
qed

text \<open>
  C4 as stated fails: the example table, first converted from UTC to a zone five hours
  behind, is localized; a second call that names that zone and asks for UTC leaves the
  index in the zone it had and logs "Some exception".
\<close>

theorem convert_tz_localized_not_converted:
  "index_tz (df (convert_tz example_tzdb ''UTC'' ''Etc/GMT+5'' example_state)) = Some ''Etc/GMT+5''
   \<and> index_tz (df (convert_tz example_tzdb ''Etc/GMT+5'' ''UTC''
        (convert_tz example_tzdb ''UTC'' ''Etc/GMT+5'' example_state))) \<noteq> Some ''UTC''
   \<and> logged (convert_tz example_tzdb ''Etc/GMT+5'' ''UTC''
        (convert_tz example_tzdb ''UTC'' ''Etc/GMT+5'' example_state)) = [Error ''Some exception'']"
  by (simp add: convert_tz_def converted_index_def tz_localize_def tz_convert_def example_tzdb_def
      example_state_def example_frame_def fixed_zone_def)

section \<open>Cutoff: properties\<close>

text \<open>
  C6. With both dates supplied, the rows left are exactly the rows (after the
  time-of-day step, if any) whose timestamp is later than \<open>start_date\<close> and earlier than
  \<open>end_date\<close>; no row at \<open>start_date\<close> or at \<open>end_date\<close> itself is left.
\<close>

theorem apply_cutoff_dates_exclusive:
  "rows (df (apply_cutoff db start_time end_time (Some start_date) (Some end_date) s)) =
     filter (\<lambda>r. start_date < fst r \<and> fst r < end_date)
       (rows (df (apply_cutoff db start_time end_time None None s)))
   \<and> rows (df (apply_cutoff db None None (Some start_date) (Some end_date) s)) =
     filter (\<lambda>r. start_date < fst r \<and> fst r < end_date) (rows (df s))
   \<and> (\<forall>cs. (start_date, cs) \<notin> set (rows (df (apply_cutoff db start_time end_time
                  (Some start_date) (Some end_date) s)))
          \<and> (end_date, cs) \<notin> set (rows (df (apply_cutoff db start_time end_time
                  (Some start_date) (Some end_date) s))))"
  by (auto simp add: apply_cutoff_def query_index_gt_def query_index_lt_def conj_commute Let_def
      split: option.splits)

theorem apply_cutoff_dates_exclusive_witness:
  "rows (df (apply_cutoff example_tzdb None None (Some (9 * us_per_hour)) (Some (58 * us_per_hour))
       example_state)) =
     [(23 * us_per_hour, [Some 11, Some 13, Some 10, Some (49 / 4), Some 2, Some 4])]"
proof -
  have "rows (df (apply_cutoff example_tzdb None None (Some (9 * us_per_hour))
          (Some (58 * us_per_hour)) example_state)) =
        filter (\<lambda>r. 9 * us_per_hour < fst r \<and> fst r < 58 * us_per_hour)
          (rows (df example_state))"
    using apply_cutoff_dates_exclusive [of example_tzdb None None "9 * us_per_hour"
        "58 * us_per_hour" example_state]
    by blast
  then show ?thesis
    by (simp add: example_state_def example_frame_def us_per_hour_def)
qed

text \<open>
  C7, as the code has it. With both times supplied and \<open>start_time \<le> end_time\<close>, the rows
  left are exactly those whose time of day lies in the closed window from \<open>start_time\<close>
  to \<open>end_time\<close>. With \<open>start_time\<close> later than \<open>end_time\<close> the window runs over midnight:
  the rows left are those at or after \<open>start_time\<close> or at or before \<open>end_time\<close>. With only
  one of the two supplied there is no time-of-day step.
\<close>

theorem apply_cutoff_time_window:
  "(start_time \<le> end_time \<longrightarrow>
      rows (df (apply_cutoff db (Some start_time) (Some end_time) None None s)) =
        filter (\<lambda>r. start_time \<le> time_of_day db (df s) (fst r)
                    \<and> time_of_day db (df s) (fst r) \<le> end_time) (rows (df s)))
   \<and> (end_time < start_time \<longrightarrow>
      rows (df (apply_cutoff db (Some start_time) (Some end_time) None None s)) =
        filter (\<lambda>r. start_time \<le> time_of_day db (df s) (fst r)
                    \<or> time_of_day db (df s) (fst r) \<le> end_time) (rows (df s)))
   \<and> apply_cutoff db (Some start_time) None start_date end_date s =
       apply_cutoff db None None start_date end_date s
   \<and> apply_cutoff db None (Some end_time) start_date end_date s =
       apply_cutoff db None None start_date end_date s
   \<and> apply_cutoff db None None None None s = s"
  by (simp add: apply_cutoff_def between_time_def Let_def)

theorem apply_cutoff_time_window_witness:
  "rows (df (apply_cutoff example_tzdb (Some (9 * us_per_hour)) (Some (10 * us_per_hour)) None None
       example_state)) =
     [(9 * us_per_hour, [Some 10, Some 12, Some 9, Some 11, Some 5, Some 3]),
      (58 * us_per_hour, [Some 12, Some 14, Some 11, Some (1069 / 80), Some 7, Some 1])]"
proof -
  have le: "9 * us_per_hour \<le> 10 * us_per_hour"
    by (simp add: us_per_hour_def)
  have "rows (df (apply_cutoff example_tzdb (Some (9 * us_per_hour)) (Some (10 * us_per_hour))
          None None example_state)) =
        filter (\<lambda>r. 9 * us_per_hour \<le> time_of_day example_tzdb (df example_state) (fst r)
                    \<and> time_of_day example_tzdb (df example_state) (fst r) \<le> 10 * us_per_hour)
          (rows (df example_state))"
    using le apply_cutoff_time_window [of "9 * us_per_hour" "10 * us_per_hour" example_tzdb
        example_state]
    by blast
  then show ?thesis
    by (simp add: example_state_def example_frame_def us_per_hour_def us_per_day_def
        time_of_day_def wall_clock_def)
qed

text \<open>
  C7 as stated fails when \<open>start_time\<close> is later than \<open>end_time\<close>: with the window from
  22:00 to 02:00 the bar of 23:00 is kept, and 23:00 is not between 22:00 and 02:00.
\<close>

theorem apply_cutoff_window_over_midnight:
  "rows (df (apply_cutoff example_tzdb (Some (22 * us_per_hour)) (Some (2 * us_per_hour)) None None
       example_state)) =
     [(23 * us_per_hour, [Some 11, Some 13, Some 10, Some (49 / 4), Some 2, Some 4])]
   \<and> time_of_day example_tzdb (df example_state) (23 * us_per_hour) = 23 * us_per_hour
   \<and> \<not> (22 * us_per_hour \<le> 23 * us_per_hour \<and> 23 * us_per_hour \<le> 2 * us_per_hour)"
  by (simp add: apply_cutoff_def between_time_def example_state_def example_frame_def
      us_per_hour_def us_per_day_def time_of_day_def wall_clock_def)

section \<open>Precision: properties\<close>

lemma round_half_even_of_int: "round_half_even (of_int n) = n"
  by (simp add: round_half_even_def)

lemma around_idem: "around p (around p x) = around p x"
  by (simp add: around_def round_half_even_of_int)

lemma round_frame_idem: "round_frame p (round_frame p f) = round_frame p f"
  by (simp add: round_frame_def around_idem option.map_comp comp_def split_def)

text \<open>
  C8. Rounding is idempotent: applying the precision twice with the same number of
  decimal places gives the state that applying it once gives.
\<close>

theorem apply_precision_idempotent:
  "apply_precision precision (apply_precision precision s) = apply_precision precision s"
  by (simp add: apply_precision_def round_frame_idem)

theorem apply_precision_idempotent_witness:
  "rows (df (apply_precision 1 (apply_precision 1 example_state))) =
     [(9 * us_per_hour, [Some 10, Some 12, Some 9, Some 11, Some 5, Some 3]),
      (23 * us_per_hour, [Some 11, Some 13, Some 10, Some (61 / 5), Some 2, Some 4]),
      (58 * us_per_hour, [Some 12, Some 14, Some 11, Some (67 / 5), Some 7, Some 1])]"
proof -
  have once: "rows (df (apply_precision 1 example_state)) =
     [(9 * us_per_hour, [Some 10, Some 12, Some 9, Some 11, Some 5, Some 3]),
      (23 * us_per_hour, [Some 11, Some 13, Some 10, Some (61 / 5), Some 2, Some 4]),
      (58 * us_per_hour, [Some 12, Some 14, Some 11, Some (67 / 5), Some 7, Some 1])]"
    by code_simp
  show ?thesis
    using apply_precision_idempotent [of 1 example_state] once by simp
qed

section \<open>Resampling: properties\<close>

lemma weekday_number_midnight: "weekday_number (n * us_per_day) = (n + 3) mod 7"
  by (simp add: weekday_number_def us_per_day_def)

lemma weekday_index_range: "0 \<le> weekday_index a \<and> weekday_index a < 7"
  by (cases a) simp_all

lemma week_binning_label:
  "weekday_number (label_of (week_binning a cl lb) b) = weekday_index a
   \<and> label_of (week_binning a cl lb) b mod us_per_day = 0"
  using weekday_index_range [of a]
  by (simp add: week_binning_def weekday_number_midnight)

lemma day_shift: "(t + us_per_day) div us_per_day = t div us_per_day + 1"
  by (simp add: us_per_day_def)

lemma week_binning_whole_days:
  "bucket_of (week_binning a cl lb) t = bucket_of (week_binning a cl lb) (t - t mod us_per_day)"
  by (simp add: week_binning_def minus_mod_eq_div_mult)

lemma small_div7: "0 \<le> r \<Longrightarrow> r < 7 \<Longrightarrow> (r + 1) div 7 = (if r = 6 then 1 else 0)" for r :: int
  by auto

lemma div7_step: "(m + 1) div 7 = m div 7 + (if m mod 7 = 6 then 1 else 0)" for m :: int
proof -
  have "(m + 1) div 7 = m div 7 + 1 div 7 + (m mod 7 + 1 mod 7) div 7"
    by (rule div_add1_eq)
  also have "\<dots> = m div 7 + (m mod 7 + 1) div 7"
    by simp
  also have "(m mod 7 + 1) div 7 = (if m mod 7 = 6 then 1 else 0)"
    by (rule small_div7) simp_all
  finally show ?thesis .
qed

lemma last_day_of_week:
  "0 \<le> i \<Longrightarrow> i < 7 \<Longrightarrow> ((k - i) mod 7 = 6 \<longleftrightarrow> (k + 1) mod 7 = i)" for k i :: int
proof -
  assume i: "0 \<le> i" "i < 7"
  have "(k - i) mod 7 = 6 \<longleftrightarrow> (k - i) mod 7 = 6 mod 7"
    by simp
  also have "\<dots> \<longleftrightarrow> 7 dvd (k - i - 6)"
    by (rule mod_eq_dvd_iff)
  also have "\<dots> \<longleftrightarrow> 7 dvd (k + 1 - i - 7)"
    by (simp add: algebra_simps)
  also have "\<dots> \<longleftrightarrow> 7 dvd (k + 1 - i)"
    by (metis dvd_diff_commute dvd_refl dvd_diff_left_iff dvd_minus_self)
  also have "\<dots> \<longleftrightarrow> (k + 1) mod 7 = i mod 7"
    by (rule mod_eq_dvd_iff [symmetric])
  also have "\<dots> \<longleftrightarrow> (k + 1) mod 7 = i"
    using i by simp
  finally show ?thesis .
qed

lemma week_step:
  "0 \<le> i \<Longrightarrow> i < 7 \<Longrightarrow>
     (k + 1 - i) div 7 = (k - i) div 7 + (if (k + 1) mod 7 = i then 1 else 0)" for k i :: int
proof -
  assume i: "0 \<le> i" "i < 7"
  have "(k + 1 - i) div 7 = (k - i + 1) div 7"
    by (simp add: algebra_simps)
  also have "\<dots> = (k - i) div 7 + (if (k - i) mod 7 = 6 then 1 else 0)"
    by (rule div7_step)
  also have "\<dots> = (k - i) div 7 + (if (k + 1) mod 7 = i then 1 else 0)"
    using last_day_of_week [OF i, of k] by simp
  finally show ?thesis .
qed

lemma week_binning_step:
  "bucket_of (week_binning a cl lb) (t + us_per_day) =
     bucket_of (week_binning a cl lb) t +
       (if weekday_number (if cl = ''right'' then t else t + us_per_day) = weekday_index a
        then 1 else 0)"
proof -
  let ?n = "t div us_per_day"
  let ?i = "weekday_index a"
  have i: "0 \<le> ?i" "?i < 7"
    using weekday_index_range [of a] by simp_all
  show ?thesis
  proof (cases "cl = ''right''")
    case True
    have after: "bucket_of (week_binning a cl lb) (t + us_per_day) = (?n + 2 + 1 - ?i) div 7"
      using True by (simp add: week_binning_def day_shift)
    have before: "bucket_of (week_binning a cl lb) t = (?n + 2 - ?i) div 7"
      using True by (simp add: week_binning_def)
    have day: "weekday_number t = (?n + 2 + 1) mod 7"
      by (simp add: weekday_number_def ac_simps)
    have "(?n + 2 + 1 - ?i) div 7 =
        (?n + 2 - ?i) div 7 + (if (?n + 2 + 1) mod 7 = ?i then 1 else 0)"
      using i by (rule week_step)
    then show ?thesis
      unfolding after before using True day by simp
  next
    case False
    have after: "bucket_of (week_binning a cl lb) (t + us_per_day) = (?n + 3 + 1 - ?i) div 7"
      using False by (simp add: week_binning_def day_shift)
    have before: "bucket_of (week_binning a cl lb) t = (?n + 3 - ?i) div 7"
      using False by (simp add: week_binning_def)
    have "weekday_number (t + us_per_day) = (?n + 1 + 3) mod 7"
      unfolding weekday_number_def day_shift ..
    then have day: "weekday_number (t + us_per_day) = (?n + 3 + 1) mod 7"
      by (simp add: ac_simps)
    have "(?n + 3 + 1 - ?i) div 7 =
        (?n + 3 - ?i) div 7 + (if (?n + 3 + 1) mod 7 = ?i then 1 else 0)"
      using i by (rule week_step)
    then show ?thesis
      unfolding after before using False day by simp
  qed
qed

lemma mono_day_binning: "mono (bucket_of (day_binning cl lb))"
  by (simp add: day_binning_def mono_def us_per_day_def zdiv_mono1)

lemma mono_week_binning: "mono (bucket_of (week_binning a cl lb))"
  by (simp add: week_binning_def mono_def us_per_day_def zdiv_mono1)

lemma weekly_grouper:
  "known_options param_dict \<Longrightarrow> weekly_anchor rule = Some a \<Longrightarrow>
     pandas_grouper rest rule param_dict None =
       Some (week_binning a (option_of param_dict ''closed'' ''right'')
               (option_of param_dict ''label'' ''right''))"
  by (auto simp add: pandas_grouper_def weekly_anchor_def split: if_splits)

lemma returned: "raised r = None \<Longrightarrow> r = Inr (state_of r)"
  by (auto simp add: raised_def state_of_def split: sum.splits)

lemma missing_on_empty_names:
  "missing_on_empty rest ''first''" "missing_on_empty rest ''last''"
  "missing_on_empty rest ''min''" "missing_on_empty rest ''max''"
  "missing_on_empty rest ''mean''"
  "\<not> missing_on_empty rest ''sum''" "\<not> missing_on_empty rest ''count''"
  "\<not> missing_on_empty rest ''size''" "\<not> missing_on_empty rest ''nunique''"
  "\<not> missing_on_empty rest ''prod''"
  by (simp_all add: missing_on_empty_def reduction_def present_def)

lemma agg_plan_Inr:
  assumes "agg_plan rest cols d = Inr plan"
  shows "plan = map (\<lambda>(c, fn). (the (col_index cols c), the (reduction rest fn))) d"
    and "d \<noteq> []"
    and "(c, fn) \<in> set d \<Longrightarrow> \<exists>red. reduction rest fn = Some red"
  using assms by (auto simp add: agg_plan_def split: if_splits)

lemma aggregate_empty_bucket:
  assumes plan: "agg_plan rest cols d = Inr plan"
    and col: "(c, fn) \<in> set d" "missing_on_empty rest fn"
    and empty: "bucket_rows bn rs b = []"
  shows "None \<in> set (aggregate plan bn rs b)"
proof -
  obtain red where red: "reduction rest fn = Some red"
    using agg_plan_Inr(3) [OF plan col(1)] by blast
  have "red [] = None"
    using col(2) red by (simp add: missing_on_empty_def)
  moreover have "(the (col_index cols c), red) \<in> set plan"
    using agg_plan_Inr(1) [OF plan] col(1) red by force
  ultimately show ?thesis
    using empty by (force simp add: aggregate_def)
qed

lemma fold_min_le: "y \<in> set (x # xs) \<Longrightarrow> fold min xs x \<le> (y::int)"
  by (metis List.finite_set Min.set_eq_fold Min_le)

lemma fold_max_ge: "y \<in> set (x # xs) \<Longrightarrow> (y::int) \<le> fold max xs x"
  by (metis List.finite_set Max.set_eq_fold Max_ge)

lemma bucket_in_span:
  assumes "mono (bucket_of bn)" and "r \<in> set rs"
  shows "bucket_of bn (fst r) \<in> set (bucket_span bn rs)"
proof (cases rs)
  case Nil
  with assms show ?thesis by simp
next
  case (Cons r0 rest)
  then have "fst r \<in> set (fst r0 # map fst rest)"
    using assms(2) by auto
  then have "fold min (map fst rest) (fst r0) \<le> fst r" "fst r \<le> fold max (map fst rest) (fst r0)"
    by (rule fold_min_le, rule fold_max_ge)
  then show ?thesis
    using assms(1) Cons by (simp add: bucket_span_def monoD)
qed

lemma bucket_rows_nonempty_in_span:
  assumes "mono (bucket_of bn)" and "bucket_rows bn rs b \<noteq> []"
  shows "b \<in> set (bucket_span bn rs)"
proof -
  from assms(2) obtain r where "r \<in> set (bucket_rows bn rs b)"
    by (cases "bucket_rows bn rs b") auto
  then have "r \<in> set rs" "bucket_of bn (fst r) = b"
    by (auto simp add: bucket_rows_def)
  then show ?thesis
    using bucket_in_span [OF assms(1)] by blast
qed

lemma rows_dropna_agg:
  "rows (dropna_any (agg_frame plan bn names f)) =
     map (\<lambda>b. (label_of bn b, aggregate plan bn (rows f) b)) (retained_buckets plan bn (rows f))"
  by (simp add: dropna_any_def agg_frame_def retained_buckets_def filter_map comp_def)

lemma resample_Inr:
  assumes "resample p interval d param_dict s = Inr s'"
  obtains bn plan
    where "pandas_grouper (more_rules p) (resample_rule interval) param_dict (index_tz (df s)) = Some bn"
    and "agg_plan (more_reductions p) (columns (df s)) d = Inr plan"
    and "s' = s\<lparr>ohlc_dict := Some d, df := dropna_any (agg_frame plan bn (map fst d) (df s))\<rparr>"
  using assms
  by (auto simp add: resample_def resample_with_def resample_rule_def Let_def
      split: option.splits sum.splits if_splits)

text \<open>
  C2, as the code has it. The interval \<^verbatim>\<open>'W'\<close>, and only it, is replaced: whatever the
  table and the options, the rule handed to pandas is then \<^verbatim>\<open>'W-FRI'\<close>. On an index
  without a zone and with the options \<open>closed\<close> and \<open>label\<close>, a resampling with \<^verbatim>\<open>'W'\<close>
  that returns has cut the time axis into weeks anchored on Friday: a bucket is made of
  whole days, the bucket changes from one day to the next exactly where a Friday ends
  (closed on the right) or begins (closed on the left), and every row of the output is
  labelled with the midnight that begins a Friday. Every other interval, another
  weekly one included, is handed on as given.
\<close>

theorem resample_weekly_rule:
  "resample p interval d param_dict s =
     resample_with p (resample_rule interval) d param_dict (s\<lparr>ohlc_dict := Some d\<rparr>)
   \<and> resample_rule ''W'' = ''W-FRI''
   \<and> (interval \<noteq> ''W'' \<longrightarrow> resample_rule interval = interval)
   \<and> (index_tz (df s) = None \<and> known_options param_dict
        \<and> resample p ''W'' d param_dict s = Inr s' \<longrightarrow>
       (\<exists>bn plan.
           pandas_grouper (more_rules p) ''W-FRI'' param_dict None = Some bn
         \<and> agg_plan (more_reductions p) (columns (df s)) d = Inr plan
         \<and> rows (df s') = map (\<lambda>b. (label_of bn b, aggregate plan bn (rows (df s)) b))
                             (retained_buckets plan bn (rows (df s)))
         \<and> (\<forall>b. weekday_number (label_of bn b) = weekday_index FRI
                 \<and> label_of bn b mod us_per_day = 0)
         \<and> (\<forall>t. bucket_of bn t = bucket_of bn (t - t mod us_per_day))
         \<and> (\<forall>t. bucket_of bn (t + us_per_day) =
                   bucket_of bn t +
                     (if weekday_number
                           (if option_of param_dict ''closed'' ''right'' = ''right'' then t
                            else t + us_per_day) = weekday_index FRI
                      then 1 else 0)))
     \<and> (\<forall>r \<in> set (rows (df s')).
           weekday_number (fst r) = weekday_index FRI \<and> fst r mod us_per_day = 0))"
proof -
  have branch: "resample p interval d param_dict s =
     resample_with p (resample_rule interval) d param_dict (s\<lparr>ohlc_dict := Some d\<rparr>)"
    by (simp add: resample_def resample_rule_def)
  have weekly: "(\<exists>bn plan.
           pandas_grouper (more_rules p) ''W-FRI'' param_dict None = Some bn
         \<and> agg_plan (more_reductions p) (columns (df s)) d = Inr plan
         \<and> rows (df s') = map (\<lambda>b. (label_of bn b, aggregate plan bn (rows (df s)) b))
                             (retained_buckets plan bn (rows (df s)))
         \<and> (\<forall>b. weekday_number (label_of bn b) = weekday_index FRI
                 \<and> label_of bn b mod us_per_day = 0)
         \<and> (\<forall>t. bucket_of bn t = bucket_of bn (t - t mod us_per_day))
         \<and> (\<forall>t. bucket_of bn (t + us_per_day) =
                   bucket_of bn t +
                     (if weekday_number
                           (if option_of param_dict ''closed'' ''right'' = ''right'' then t
                            else t + us_per_day) = weekday_index FRI
                      then 1 else 0)))
     \<and> (\<forall>r \<in> set (rows (df s')).
           weekday_number (fst r) = weekday_index FRI \<and> fst r mod us_per_day = 0)"
    if naive: "index_tz (df s) = None" and opts: "known_options param_dict"
      and ret: "resample p ''W'' d param_dict s = Inr s'"
  proof -
    let ?bn = "week_binning FRI (option_of param_dict ''closed'' ''right'')
                 (option_of param_dict ''label'' ''right'')"
    have friday: "weekly_anchor ''W-FRI'' = Some FRI"
      by (simp add: weekly_anchor_def)
    have grouper: "pandas_grouper (more_rules p) ''W-FRI'' param_dict None = Some ?bn"
      using opts friday by (rule weekly_grouper)
    from ret obtain bn plan
      where bn: "pandas_grouper (more_rules p) (resample_rule ''W'') param_dict (index_tz (df s)) =
          Some bn"
        and plan: "agg_plan (more_reductions p) (columns (df s)) d = Inr plan"
        and s': "s' = s\<lparr>ohlc_dict := Some d,
                        df := dropna_any (agg_frame plan bn (map fst d) (df s))\<rparr>"
      by (rule resample_Inr)
    have bn_eq: "bn = ?bn"
      using bn grouper naive by (simp add: resample_rule_def)
    have out: "rows (df s') = map (\<lambda>b. (label_of ?bn b, aggregate plan ?bn (rows (df s)) b))
                             (retained_buckets plan ?bn (rows (df s)))"
      by (simp add: s' bn_eq rows_dropna_agg)
    have labels: "\<forall>b. weekday_number (label_of ?bn b) = weekday_index FRI
                 \<and> label_of ?bn b mod us_per_day = 0"
      using week_binning_label by blast
    have days: "\<forall>t. bucket_of ?bn t = bucket_of ?bn (t - t mod us_per_day)"
      using week_binning_whole_days by blast
    have step: "\<forall>t. bucket_of ?bn (t + us_per_day) =
                   bucket_of ?bn t +
                     (if weekday_number
                           (if option_of param_dict ''closed'' ''right'' = ''right'' then t
                            else t + us_per_day) = weekday_index FRI
                      then 1 else 0)"
      using week_binning_step by blast
    have rows_friday: "\<forall>r \<in> set (rows (df s')).
           weekday_number (fst r) = weekday_index FRI \<and> fst r mod us_per_day = 0"
      using labels by (auto simp add: out)
    show ?thesis
      using grouper plan out labels days step rows_friday by blast
  qed
  show ?thesis
    using branch weekly by (simp add: resample_rule_def)
qed

theorem resample_weekly_rule_witness:
  "rows (df (state_of (resample plain_pandas ''W'' [(''Up'', ''sum'')] RESAMPLE example_state))) =
     [(us_per_day, [Some 7]), (8 * us_per_day, [Some 7])]
   \<and> weekday_number us_per_day = weekday_index FRI
   \<and> weekday_number (8 * us_per_day) = weekday_index FRI"
proof -
  let ?r = "resample plain_pandas ''W'' [(''Up'', ''sum'')] RESAMPLE example_state"
  have "raised ?r = None"
    by code_simp
  then have ret: "?r = Inr (state_of ?r)"
    by (rule returned)
  have naive: "index_tz (df example_state) = None" and opts: "known_options RESAMPLE"
    by code_simp+
  have out: "rows (df (state_of ?r)) = [(us_per_day, [Some 7]), (8 * us_per_day, [Some 7])]"
    by code_simp
  have "\<forall>r \<in> set (rows (df (state_of ?r))).
      weekday_number (fst r) = weekday_index FRI \<and> fst r mod us_per_day = 0"
    using resample_weekly_rule [of plain_pandas "''W''" "[(''Up'', ''sum'')]" RESAMPLE
        example_state "state_of ?r"] naive opts ret
    by blast
  then show ?thesis
    by (simp add: out)
qed

text \<open>
  C2 as stated fails for a weekly interval other than \<^verbatim>\<open>'W'\<close>. \<^verbatim>\<open>'W-MON'\<close> is weekly;
  resampled with it, the bars of Thursday and Saturday of the example table fall into
  one bucket, although a Friday lies between them, and the one row of the output is
  labelled with a Monday.
\<close>

theorem resample_weekly_token_not_friday:
  "weekly_anchor ''W-MON'' = Some MON
   \<and> rows (df (state_of
        (resample plain_pandas ''W-MON'' [(''Up'', ''sum'')] RESAMPLE example_state))) =
       [(4 * us_per_day, [Some 14])]
   \<and> weekday_number (4 * us_per_day) = weekday_index MON
   \<and> weekday_number (4 * us_per_day) \<noteq> weekday_index FRI"
  by code_simp

text \<open>
  C1, as the code has it. When \<open>resample\<close> returns, the output holds one row for each
  retained bucket, in bucket order, and a bucket is retained if and only if it lies in
  the span from the bucket of the earliest source row to the bucket of the latest and
  every column of the dictionary yields an aggregate that is not missing. On a bucket
  without source rows \<^verbatim>\<open>first\<close>, \<^verbatim>\<open>last\<close>, \<^verbatim>\<open>min\<close>, \<^verbatim>\<open>max\<close> and \<^verbatim>\<open>mean\<close> are missing,
  while \<^verbatim>\<open>sum\<close>, \<^verbatim>\<open>count\<close>, \<^verbatim>\<open>size\<close>, \<^verbatim>\<open>nunique\<close> and \<^verbatim>\<open>prod\<close> have a value. When the
  dictionary names at least one reduction that is missing on a bucket without rows
  (and buckets follow the order of time), a bucket is retained if and only if it holds
  at least one source row and every column yields an aggregate that is not missing.
\<close>

theorem resample_row_iff_no_missing:
  assumes "resample p interval d param_dict s = Inr s'"
  shows "\<exists>bn plan.
     pandas_grouper (more_rules p) (resample_rule interval) param_dict (index_tz (df s)) = Some bn
   \<and> agg_plan (more_reductions p) (columns (df s)) d = Inr plan
   \<and> rows (df s') = map (\<lambda>b. (label_of bn b, aggregate plan bn (rows (df s)) b))
                       (retained_buckets plan bn (rows (df s)))
   \<and> distinct (retained_buckets plan bn (rows (df s)))
   \<and> (\<forall>b. b \<in> set (retained_buckets plan bn (rows (df s))) \<longleftrightarrow>
           b \<in> set (bucket_span bn (rows (df s)))
         \<and> (\<forall>c \<in> set (aggregate plan bn (rows (df s)) b). c \<noteq> None))
   \<and> ((\<exists>(c, fn) \<in> set d. missing_on_empty (more_reductions p) fn) \<and> mono (bucket_of bn) \<longrightarrow>
        (\<forall>b. b \<in> set (retained_buckets plan bn (rows (df s))) \<longleftrightarrow>
           bucket_rows bn (rows (df s)) b \<noteq> []
         \<and> (\<forall>c \<in> set (aggregate plan bn (rows (df s)) b). c \<noteq> None)))
   \<and> (\<forall>fn \<in> {''first'', ''last'', ''min'', ''max'', ''mean''}.
         missing_on_empty (more_reductions p) fn)
   \<and> (\<forall>fn \<in> {''sum'', ''count'', ''size'', ''nunique'', ''prod''}.
         \<not> missing_on_empty (more_reductions p) fn)"
proof -
  from assms obtain bn plan
    where bn: "pandas_grouper (more_rules p) (resample_rule interval) param_dict
        (index_tz (df s)) = Some bn"
    and plan: "agg_plan (more_reductions p) (columns (df s)) d = Inr plan"
    and s': "s' = s\<lparr>ohlc_dict := Some d, df := dropna_any (agg_frame plan bn (map fst d) (df s))\<rparr>"
    by (rule resample_Inr)
  let ?rs = "rows (df s)"
  have out: "rows (df s') = map (\<lambda>b. (label_of bn b, aggregate plan bn ?rs b))
                       (retained_buckets plan bn ?rs)"
    by (simp add: s' rows_dropna_agg)
  have dist: "distinct (retained_buckets plan bn ?rs)"
    by (simp add: retained_buckets_def bucket_span_def split: list.splits)
  have iff: "\<forall>b. b \<in> set (retained_buckets plan bn ?rs) \<longleftrightarrow>
           b \<in> set (bucket_span bn ?rs) \<and> (\<forall>c \<in> set (aggregate plan bn ?rs b). c \<noteq> None)"
    by (simp add: retained_buckets_def)
  have rows_iff: "\<forall>b. b \<in> set (retained_buckets plan bn ?rs) \<longleftrightarrow>
           bucket_rows bn ?rs b \<noteq> [] \<and> (\<forall>c \<in> set (aggregate plan bn ?rs b). c \<noteq> None)"
    if some: "\<exists>(c, fn) \<in> set d. missing_on_empty (more_reductions p) fn"
      and mono: "mono (bucket_of bn)"
  proof (intro allI iffI)
    fix b
    assume kept: "b \<in> set (retained_buckets plan bn ?rs)"
    from some obtain c fn where col: "(c, fn) \<in> set d" "missing_on_empty (more_reductions p) fn"
      by blast
    have all: "\<forall>c \<in> set (aggregate plan bn ?rs b). c \<noteq> None"
      using kept iff by blast
    then have "bucket_rows bn ?rs b \<noteq> []"
      using aggregate_empty_bucket [OF plan col] by blast
    with all show "bucket_rows bn ?rs b \<noteq> [] \<and> (\<forall>c \<in> set (aggregate plan bn ?rs b). c \<noteq> None)"
      by blast
  next
    fix b
    assume "bucket_rows bn ?rs b \<noteq> [] \<and> (\<forall>c \<in> set (aggregate plan bn ?rs b). c \<noteq> None)"
    then show "b \<in> set (retained_buckets plan bn ?rs)"
      using bucket_rows_nonempty_in_span [OF mono] iff by blast
  qed
  have names: "\<forall>fn \<in> {''first'', ''last'', ''min'', ''max'', ''mean''}.
         missing_on_empty (more_reductions p) fn"
    "\<forall>fn \<in> {''sum'', ''count'', ''size'', ''nunique'', ''prod''}.
         \<not> missing_on_empty (more_reductions p) fn"
    using missing_on_empty_names [of "more_reductions p"] by blast+
  show ?thesis
    using bn plan out dist iff rows_iff names by blast
qed

theorem resample_row_iff_no_missing_witness:
  "\<exists>plan.
     agg_plan (more_reductions plain_pandas) (columns (df example_state))
       [(''Open'', ''first''), (''Up'', ''count'')] = Inr plan
   \<and> rows (df (example_resampled [(''Open'', ''first''), (''Up'', ''count'')])) =
       map (\<lambda>b. (label_of daily b, aggregate plan daily (rows (df example_state)) b))
         (retained_buckets plan daily (rows (df example_state)))
   \<and> (\<forall>b. b \<in> set (retained_buckets plan daily (rows (df example_state))) \<longleftrightarrow>
           bucket_rows daily (rows (df example_state)) b \<noteq> []
         \<and> (\<forall>c \<in> set (aggregate plan daily (rows (df example_state)) b). c \<noteq> None))"
proof -
  let ?d = "[(''Open'', ''first''), (''Up'', ''count'')]"
  have "raised (resample plain_pandas ''D'' ?d RESAMPLE example_state) = None"
    by code_simp
  then have returns: "resample plain_pandas ''D'' ?d RESAMPLE example_state =
      Inr (example_resampled ?d)"
    unfolding example_resampled_def by (rule returned)
  have rule: "pandas_grouper (more_rules plain_pandas) (resample_rule ''D'') RESAMPLE
      (index_tz (df example_state)) = Some daily"
    by (simp add: pandas_grouper_def resample_rule_def known_options_def RESAMPLE_def
        option_of_def daily_def example_state_def example_frame_def)
  have other: "\<exists>(c, fn) \<in> set ?d. missing_on_empty (more_reductions plain_pandas) fn"
    by (simp add: missing_on_empty_names)
  have mono: "mono (bucket_of daily)"
    by (simp add: daily_def mono_day_binning)
  show ?thesis
    using resample_row_iff_no_missing [OF returns] rule other mono by auto
qed

text \<open>
  C1 as stated fails for a dictionary of sums: the example table has bars on the first
  and the third day; resampled by day with \<^verbatim>\<open>{'Up': 'sum'}\<close>, the output has a row for
  the second day (bucket 1, labelled with the start of the third day), which holds no
  source row.
\<close>

theorem resample_sum_keeps_empty_bucket:
  "rows (df (example_resampled [(''Up'', ''sum'')])) =
     [(us_per_day, [Some 7]), (2 * us_per_day, [Some 0]), (3 * us_per_day, [Some 7])]
   \<and> label_of daily 1 = 2 * us_per_day
   \<and> bucket_rows daily (rows (df example_state)) 1 = []"
  by code_simp

section \<open>Export: properties\<close>

lemma subseq_remove1: "subseq (remove1 x xs) xs"
  by (induction xs) auto

lemma remove_datetime_cols_other:
  "a \<noteq> c \<Longrightarrow> remove_datetime_cols dc c i h a = h a"
proof (induction dc c i h rule: remove_datetime_cols.induct)
  case (1 dc c i h)
  then show ?case
    by (subst remove_datetime_cols.simps) auto
qed

lemma remove_datetime_cols_subseq:
  "subseq (remove_datetime_cols dc c i h c) (h c)"
proof (induction dc c i h rule: remove_datetime_cols.induct)
  case (1 dc c i h)
  show ?case
  proof (cases "i < length (h dc)")
    case True
    let ?h = "if h dc ! i \<in> set (h c) then h(c := remove1 (h dc ! i) (h c)) else h"
    have "subseq (remove_datetime_cols dc c (Suc i) ?h c) (?h c)"
      using "1.IH" [OF True] .
    moreover have "subseq (?h c) (h c)"
      by (simp add: subseq_remove1)
    ultimately have "subseq (remove_datetime_cols dc c (Suc i) ?h c) (h c)"
      by (rule subseq_order.trans)
    then show ?thesis
      using True by (subst remove_datetime_cols.simps) simp
  next
    case False
    then show ?thesis
      by (subst remove_datetime_cols.simps) simp
  qed
qed

lemma discard_cols_other:
  "a \<noteq> c \<Longrightarrow> fst (discard_cols keys c i hl) a = fst hl a"
proof (induction keys c i hl rule: discard_cols.induct)
  case (1 keys c i h lg)
  then show ?case
    by (subst discard_cols.simps) auto
qed

lemma discard_cols_subseq:
  "subseq (fst (discard_cols keys c i hl) c) (fst hl c)"
proof (induction keys c i hl rule: discard_cols.induct)
  case (1 keys c i h lg)
  show ?case
  proof (cases "i < length (h c) \<and> h c ! i \<notin> set keys")
    case True
    let ?h = "h(c := remove1 (h c ! i) (h c))"
    let ?lg = "lg @ [Warning (''col '' @ h c ! i @ '' not in resampled data. discarded.'')]"
    have "subseq (fst (discard_cols keys c (Suc i) (?h, ?lg)) c) (?h c)"
      using "1.IH"(1) True by simp
    moreover have "subseq (?h c) (h c)"
      by (simp add: subseq_remove1)
    ultimately have "subseq (fst (discard_cols keys c (Suc i) (?h, ?lg)) c) (h c)"
      by (rule subseq_order.trans)
    then show ?thesis
      using True by (subst discard_cols.simps) simp
  next
    case False
    then show ?thesis
      using "1.IH"(2) by (subst discard_cols.simps) auto
  qed
qed

lemma remove_datetime_cols_fold:
  "dc \<noteq> c \<Longrightarrow> remove_datetime_cols dc c i h c = fold remove1 (drop i (h dc)) (h c)"
proof (induction dc c i h rule: remove_datetime_cols.induct)
  case (1 dc c i h)
  show ?case
  proof (cases "i < length (h dc)")
    case True
    let ?h = "if h dc ! i \<in> set (h c) then h(c := remove1 (h dc ! i) (h c)) else h"
    have same: "?h dc = h dc" and upd: "?h c = remove1 (h dc ! i) (h c)"
      using "1.prems" by (simp_all add: remove1_idem)
    have "remove_datetime_cols dc c i h c = remove_datetime_cols dc c (Suc i) ?h c"
      using True by (subst remove_datetime_cols.simps) simp
    also have "\<dots> = fold remove1 (drop (Suc i) (?h dc)) (?h c)"
      using "1.IH" [OF True "1.prems"] .
    also have "\<dots> = fold remove1 (h dc ! i # drop (Suc i) (h dc)) (h c)"
      by (simp only: same upd fold.simps comp_def)
    also have "\<dots> = fold remove1 (drop i (h dc)) (h c)"
      using True by (simp only: Cons_nth_drop_Suc)
    finally show ?thesis .
  next
    case False
    then show ?thesis
      by (subst remove_datetime_cols.simps) simp
  qed
qed

lemma fold_remove1_distinct:
  "distinct xs \<Longrightarrow> fold remove1 vs xs = filter (\<lambda>x. x \<notin> set vs) xs"
proof (induction vs arbitrary: xs)
  case Nil
  then show ?case by simp
next
  case (Cons v vs)
  have "remove1 v xs = filter (\<lambda>x. x \<noteq> v) xs"
    using Cons.prems by (simp add: distinct_remove1_removeAll removeAll_filter_not_eq eq_commute)
  moreover have "distinct (remove1 v xs)"
    using Cons.prems by simp
  ultimately show ?case
    using Cons.IH [of "remove1 v xs"] by (auto intro: filter_cong)
qed

lemma adjacent_discards_tl: "\<not> adjacent_discards keys (y # ys) \<Longrightarrow> \<not> adjacent_discards keys ys"
  by (cases ys) auto

lemma remove1_nth_distinct:
  "distinct xs \<Longrightarrow> i < length xs \<Longrightarrow> remove1 (xs ! i) xs = take i xs @ drop (Suc i) xs"
proof (induction xs arbitrary: i)
  case Nil
  then show ?case by simp
next
  case (Cons x xs)
  then show ?case
    by (cases i) auto
qed

lemma discard_cols_filter:
  "distinct (h c) \<Longrightarrow> \<not> adjacent_discards keys (drop i (h c)) \<Longrightarrow>
     fst (discard_cols keys c i (h, lg)) c =
       take i (h c) @ filter (\<lambda>x. x \<in> set keys) (drop i (h c))"
proof (induction keys c i "(h, lg)" arbitrary: h lg rule: discard_cols.induct)
  case (1 keys c i h lg)
  let ?xs = "h c"
  show ?case
  proof (cases "i < length ?xs")
    case False
    then show ?thesis
      by (subst discard_cols.simps) simp
  next
    case True
    note in_range = this
    have drop_i: "drop i ?xs = ?xs ! i # drop (Suc i) ?xs"
      using True by (simp add: Cons_nth_drop_Suc)
    show ?thesis
    proof (cases "?xs ! i \<in> set keys")
      case True
      have nadj: "\<not> adjacent_discards keys (drop (Suc i) ?xs)"
        using "1.prems"(2) drop_i adjacent_discards_tl by metis
      have "fst (discard_cols keys c i (h, lg)) c = fst (discard_cols keys c (Suc i) (h, lg)) c"
        using True in_range by (subst discard_cols.simps) simp
      also have "\<dots> = take (Suc i) ?xs @ filter (\<lambda>x. x \<in> set keys) (drop (Suc i) ?xs)"
        using "1.hyps"(2) [OF in_range _ "1.prems"(1) nadj] True by simp
      also have "\<dots> = take i ?xs @ filter (\<lambda>x. x \<in> set keys) (drop i ?xs)"
        using True in_range by (simp add: drop_i take_Suc_conv_app_nth)
      finally show ?thesis .
    next
      case False
      let ?h = "h(c := remove1 (?xs ! i) ?xs)"
      let ?lg = "lg @ [Warning (''col '' @ ?xs ! i @ '' not in resampled data. discarded.'')]"
      have new: "?h c = take i ?xs @ drop (Suc i) ?xs"
        using "1.prems"(1) in_range by (simp add: remove1_nth_distinct)
      have dist: "distinct (?h c)"
        using "1.prems"(1) by simp
      have step: "fst (discard_cols keys c i (h, lg)) c = fst (discard_cols keys c (Suc i) (?h, ?lg)) c"
        using False in_range by (subst discard_cols.simps) simp
      show ?thesis
      proof (cases "Suc i < length ?xs")
        case True
        have drop_Suc: "drop (Suc i) ?xs = ?xs ! Suc i # drop (Suc (Suc i)) ?xs"
          using True by (simp add: Cons_nth_drop_Suc)
        have key: "?xs ! Suc i \<in> set keys"
          using "1.prems"(2) False by (simp add: drop_i drop_Suc)
        have nadj: "\<not> adjacent_discards keys (drop (Suc (Suc i)) ?xs)"
          using "1.prems"(2) adjacent_discards_tl unfolding drop_i drop_Suc by metis
        have len: "length (take i ?xs) = i"
          using in_range by simp
        have take_new: "take (Suc i) (?h c) = take i ?xs @ [?xs ! Suc i]"
          unfolding new using len by (simp add: drop_Suc)
        have drop_new: "drop (Suc i) (?h c) = drop (Suc (Suc i)) ?xs"
          unfolding new using len by (simp add: drop_Suc)
        have "fst (discard_cols keys c (Suc i) (?h, ?lg)) c =
            take (Suc i) (?h c) @ filter (\<lambda>x. x \<in> set keys) (drop (Suc i) (?h c))"
          using "1.hyps"(1) [OF in_range False dist] nadj drop_new by simp
        also have "\<dots> = (take i ?xs @ [?xs ! Suc i]) @
            filter (\<lambda>x. x \<in> set keys) (drop (Suc (Suc i)) ?xs)"
          by (simp only: take_new drop_new)
        also have "\<dots> = take i ?xs @ filter (\<lambda>x. x \<in> set keys) (drop i ?xs)"
          using False key by (simp add: drop_i drop_Suc)
        finally show ?thesis
          using step by simp
      next
        case False: False
        then have last: "Suc i = length ?xs"
          using in_range by simp
        have new': "?h c = take i ?xs"
          using new last by simp
        have "fst (discard_cols keys c (Suc i) (?h, ?lg)) c = ?h c"
          using last new' by (subst discard_cols.simps) simp
        also have "\<dots> = take i ?xs"
          by (rule new')
        also have "\<dots> = take i ?xs @ filter (\<lambda>x. x \<in> set keys) (drop i ?xs)"
          using \<open>?xs ! i \<notin> set keys\<close> last by (simp add: drop_i)
        finally show ?thesis
          using step by simp
      qed
    qed
  qed
qed

lemma subseq_set: "subseq xs ys \<Longrightarrow> set xs \<subseteq> set ys"
  by (auto dest: list_emb_set)

lemma heap_write_csv:
  "heap (state_of (write_csv outfile (Some c) s)) =
     (case ohlc_dict s of
        None \<Rightarrow> remove_datetime_cols (datetime_col s) c 0 (heap s)
      | Some d \<Rightarrow> fst (discard_cols (map fst d) c 0
                        (remove_datetime_cols (datetime_col s) c 0 (heap s), logged s)))"
  by (auto simp add: write_csv_def state_of_def Let_def split: option.splits prod.splits)

lemma write_csv_other:
  "a \<noteq> c \<Longrightarrow> heap (state_of (write_csv outfile (Some c) s)) a = heap s a"
  by (simp add: heap_write_csv discard_cols_other remove_datetime_cols_other split: option.splits)

lemma write_csv_subseq:
  "subseq (heap (state_of (write_csv outfile (Some c) s)) c)
     (remove_datetime_cols (datetime_col s) c 0 (heap s) c)"
proof (cases "ohlc_dict s")
  case None
  then show ?thesis by (simp add: heap_write_csv)
next
  case (Some d)
  then show ?thesis
    using discard_cols_subseq [of "map fst d" c 0
        "(remove_datetime_cols (datetime_col s) c 0 (heap s), logged s)"]
    by (simp add: heap_write_csv)
qed

lemma write_csv_columns:
  "raised (write_csv outfile (Some c) s) = None \<Longrightarrow>
     columns (df (state_of (write_csv outfile (Some c) s))) =
       heap (state_of (write_csv outfile (Some c) s)) c"
  by (auto simp add: write_csv_def state_of_def raised_def select_columns_def Let_def
      split: option.splits prod.splits if_splits)

lemma first_loop_distinct:
  assumes "distinct (h c)" and "dc \<noteq> c"
  shows "remove_datetime_cols dc c 0 h c = filter (\<lambda>x. x \<notin> set (h dc)) (h c)"
  using assms by (simp add: remove_datetime_cols_fold fold_remove1_distinct)

lemma raised_write_csv:
  "raised (write_csv outfile cols s) = Some AttributeError \<longleftrightarrow> ohlc_dict s = None"
  by (auto simp add: write_csv_def raised_def Let_def split: option.splits prod.splits)

lemma ohlc_dict_resample: "ohlc_dict (state_of (resample p interval d param_dict s)) = Some d"
  by (auto simp add: resample_def resample_with_def state_of_def Let_def
      split: option.splits sum.splits)

lemma ohlc_dict_write_csv: "ohlc_dict (state_of (write_csv outfile cols s)) = ohlc_dict s"
  by (auto simp add: write_csv_def state_of_def Let_def split: option.splits prod.splits)

lemma ohlc_dict_convert_tz: "ohlc_dict (convert_tz db from_tz to_tz s) = ohlc_dict s"
  by (auto simp add: convert_tz_def split: sum.splits py_error.splits)

lemma ohlc_dict_apply_cutoff:
  "ohlc_dict (apply_cutoff db start_time end_time start_date end_date s) = ohlc_dict s"
  by (auto simp add: apply_cutoff_def Let_def split: option.splits)

text \<open>
  C9. On an object fresh from the constructor \<open>write_csv\<close> raises \<^verbatim>\<open>AttributeError\<close>: the
  stored dictionary is still \<^verbatim>\<open>None\<close>. It raises that error exactly when the stored
  dictionary is \<^verbatim>\<open>None\<close>. A call of \<open>resample\<close>, whether it returns or raises, stores
  its dictionary, and no other method touches it; so once \<open>resample\<close> has been called,
  \<open>write_csv\<close> does not raise \<^verbatim>\<open>AttributeError\<close>.
\<close>

theorem write_csv_needs_resample:
  "(init fs h file datetimecols = Inr s0 \<longrightarrow>
      raised (write_csv outfile cols s0) = Some AttributeError)
   \<and> (raised (write_csv outfile cols s) = Some AttributeError \<longleftrightarrow> ohlc_dict s = None)
   \<and> ohlc_dict (state_of (resample p interval d param_dict s)) = Some d
   \<and> raised (write_csv outfile cols (state_of (resample p interval d param_dict s))) \<noteq>
       Some AttributeError
   \<and> ohlc_dict (convert_tz db from_tz to_tz s) = ohlc_dict s
   \<and> ohlc_dict (apply_cutoff db start_time end_time start_date end_date s) = ohlc_dict s
   \<and> ohlc_dict (apply_precision precision s) = ohlc_dict s
   \<and> ohlc_dict (state_of (write_csv outfile cols s)) = ohlc_dict s"
proof -
  have "raised (write_csv outfile cols s0) = Some AttributeError"
    if "init fs h file datetimecols = Inr s0"
  proof -
    from that have "ohlc_dict s0 = None"
      by (auto simp add: init_def split: option.splits)
    then show ?thesis
      by (simp add: raised_write_csv)
  qed
  then show ?thesis
    by (simp add: raised_write_csv ohlc_dict_resample ohlc_dict_write_csv ohlc_dict_convert_tz
        ohlc_dict_apply_cutoff apply_precision_def)
qed

theorem write_csv_needs_resample_witness:
  "raised (write_csv ''out.csv'' None example_state) = Some AttributeError
   \<and> raised (write_csv ''out.csv'' None
        (state_of (resample plain_pandas ''D'' [(''Open'', ''first'')] RESAMPLE example_state))) \<noteq>
       Some AttributeError"
proof -
  have made: "init (\<lambda>p. if p = ''input.csv'' then Some example_frame else None) initial_heap
      ''input.csv'' init_default = Inr example_state"
    by (simp add: init_def example_state_def)
  show ?thesis
    using made write_csv_needs_resample
      [of "\<lambda>p. if p = ''input.csv'' then Some example_frame else None"
        initial_heap "''input.csv''" init_default example_state "''out.csv''" None example_state
        plain_pandas "''D''" "[(''Open'', ''first'')]" RESAMPLE]
    by blast
qed

text \<open>
  C3 at a failing input. The example table is resampled with
  \<^verbatim>\<open>{'Open': 'first', 'Close': 'last'}\<close> and written with the default column list. The
  scan removes \<^verbatim>\<open>High\<close> and, the list having moved under it, never looks at \<^verbatim>\<open>Low\<close>;
  likewise \<^verbatim>\<open>Up\<close> and \<^verbatim>\<open>Down\<close>. Two warnings are logged, the list is left holding two
  names that are no keys, the projection raises \<^verbatim>\<open>KeyError\<close> and no file is written.
\<close>

theorem write_csv_adjacent_discard_fails:
  "raised (write_csv ''out.csv'' None
      (example_resampled [(''Open'', ''first''), (''Close'', ''last'')])) = Some KeyError
   \<and> heap (state_of (write_csv ''out.csv'' None
        (example_resampled [(''Open'', ''first''), (''Close'', ''last'')]))) write_csv_default =
       [''Open'', ''Low'', ''Close'', ''Down'']
   \<and> logged (state_of (write_csv ''out.csv'' None
        (example_resampled [(''Open'', ''first''), (''Close'', ''last'')]))) =
       [Warning ''col High not in resampled data. discarded.'',
        Warning ''col Up not in resampled data. discarded.'']
   \<and> disk (state_of (write_csv ''out.csv'' None
        (example_resampled [(''Open'', ''first''), (''Close'', ''last'')]))) = []"
  by code_simp

text \<open>
  The frame effect of \<open>write_csv\<close>. It works on the list object it is given, and on the
  one shared default object when it is given none: whether it returns or raises, that
  object afterwards holds what the two loops left, an order-preserving sub-list of what
  it held, and no other list object has changed; when the call returns, the frame has
  been projected on that very list. If the list held no name twice and is not the
  \<open>datetime_col\<close> list itself, then no timestamp-composing name is left in it; if, after
  these are gone, no two names that are no keys stand next to each other, the list is
  left holding exactly its names that are neither timestamp-composing nor missing from
  the keys.
\<close>

theorem write_csv_mutates_columns_in_place:
  "write_csv outfile None s = write_csv outfile (Some write_csv_default) s
   \<and> (\<forall>a. a \<noteq> c \<longrightarrow> heap (state_of (write_csv outfile (Some c) s)) a = heap s a)
   \<and> subseq (heap (state_of (write_csv outfile (Some c) s)) c) (heap s c)
   \<and> (raised (write_csv outfile (Some c) s) = None \<longrightarrow>
        columns (df (state_of (write_csv outfile (Some c) s))) =
          heap (state_of (write_csv outfile (Some c) s)) c)
   \<and> (distinct (heap s c) \<and> datetime_col s \<noteq> c \<longrightarrow>
        set (heap (state_of (write_csv outfile (Some c) s)) c)
          \<inter> set (heap s (datetime_col s)) = {})
   \<and> (distinct (heap s c) \<and> datetime_col s \<noteq> c \<and> ohlc_dict s = Some d
        \<and> \<not> adjacent_discards (map fst d)
              (filter (\<lambda>x. x \<notin> set (heap s (datetime_col s))) (heap s c)) \<longrightarrow>
        heap (state_of (write_csv outfile (Some c) s)) c =
          filter (\<lambda>x. x \<notin> set (heap s (datetime_col s)) \<and> x \<in> set (map fst d)) (heap s c))"
proof -
  let ?h1 = "remove_datetime_cols (datetime_col s) c 0 (heap s)"
  let ?after = "heap (state_of (write_csv outfile (Some c) s))"
  have default: "write_csv outfile None s = write_csv outfile (Some write_csv_default) s"
    by (simp add: write_csv_def)
  have sub: "subseq (?after c) (heap s c)"
    using write_csv_subseq [of outfile c s]
      remove_datetime_cols_subseq [of "datetime_col s" c 0 "heap s"]
    by (rule subseq_order.trans)
  have no_dates: "set (?after c) \<inter> set (heap s (datetime_col s)) = {}"
    if "distinct (heap s c)" "datetime_col s \<noteq> c"
  proof -
    have "set (?after c) \<subseteq> set (?h1 c)"
      using write_csv_subseq [of outfile c s] by (rule subseq_set)
    then show ?thesis
      using first_loop_distinct [of "heap s" c "datetime_col s"] that by auto
  qed
  have exact: "?after c =
      filter (\<lambda>x. x \<notin> set (heap s (datetime_col s)) \<and> x \<in> set (map fst d)) (heap s c)"
    if dist: "distinct (heap s c)" and ne: "datetime_col s \<noteq> c" and d: "ohlc_dict s = Some d"
      and nadj: "\<not> adjacent_discards (map fst d)
              (filter (\<lambda>x. x \<notin> set (heap s (datetime_col s))) (heap s c))"
  proof -
    have h1: "?h1 c = filter (\<lambda>x. x \<notin> set (heap s (datetime_col s))) (heap s c)"
      using first_loop_distinct [of "heap s" c "datetime_col s"] dist ne by simp
    have "distinct (?h1 c)" "\<not> adjacent_discards (map fst d) (drop 0 (?h1 c))"
      using dist nadj by (simp_all add: h1)
    then have "fst (discard_cols (map fst d) c 0 (?h1, logged s)) c =
        take 0 (?h1 c) @ filter (\<lambda>x. x \<in> set (map fst d)) (drop 0 (?h1 c))"
      by (rule discard_cols_filter)
    then show ?thesis
      by (simp add: heap_write_csv d h1 conj_commute)
  qed
  show ?thesis
    using default write_csv_other [of _ c outfile s] sub write_csv_columns [of outfile c s]
      no_dates exact
    by blast
qed

theorem write_csv_mutates_columns_in_place_witness:
  "heap (state_of (write_csv ''out.csv'' (Some 2)
      (example_caller [(''Open'', ''first''), (''Low'', ''min''), (''Close'', ''last'')]
         [''Date'', ''Time'', ''Open'', ''High'', ''Low'', ''Close'']))) 2 =
     [''Open'', ''Low'', ''Close'']"
proof -
  let ?d = "[(''Open'', ''first''), (''Low'', ''min''), (''Close'', ''last'')]"
  let ?names = "[''Date'', ''Time'', ''Open'', ''High'', ''Low'', ''Close'']"
  let ?s = "example_caller ?d ?names"
  have own: "heap ?s 2 = ?names"
    by (simp add: example_caller_def)
  have dates: "heap ?s (datetime_col ?s) = [''Date'', ''Time'']" and other: "datetime_col ?s \<noteq> 2"
    and dict: "ohlc_dict ?s = Some ?d"
    by code_simp+
  have dist: "distinct (heap ?s 2)"
    by (simp add: own)
  have nadj: "\<not> adjacent_discards (map fst ?d)
      (filter (\<lambda>x. x \<notin> set (heap ?s (datetime_col ?s))) (heap ?s 2))"
    by (simp add: own dates)
  have "heap (state_of (write_csv ''out.csv'' (Some 2) ?s)) 2 =
      filter (\<lambda>x. x \<notin> set (heap ?s (datetime_col ?s)) \<and> x \<in> set (map fst ?d)) (heap ?s 2)"
    using write_csv_mutates_columns_in_place [of "''out.csv''" ?s 2 ?d] dist other dict nadj
    by blast
  then show ?thesis
    by (simp add: own dates)
qed

text \<open>
  C10 at a failing input. The caller passes its own list
  \<^verbatim>\<open>['Date', 'Volume', 'Ticks', 'Open']\<close>, and \<^verbatim>\<open>Open\<close> is the only key. The first loop
  removes \<^verbatim>\<open>Date\<close>; the second removes \<^verbatim>\<open>Volume\<close> and so never looks at \<^verbatim>\<open>Ticks\<close>: the
  caller's list object is left holding \<^verbatim>\<open>['Ticks', 'Open']\<close>, one name that is no key
  still in it.
\<close>

theorem write_csv_keeps_adjacent_name:
  "ohlc_dict (example_caller [(''Open'', ''first'')] [''Date'', ''Volume'', ''Ticks'', ''Open'']) =
     Some [(''Open'', ''first'')]
   \<and> heap (state_of (write_csv ''out.csv'' (Some 2)
        (example_caller [(''Open'', ''first'')] [''Date'', ''Volume'', ''Ticks'', ''Open'']))) 2 =
       [''Ticks'', ''Open'']"
  by code_simp

text \<open>
  The default list object is shared: after one call has pruned it to four names, a call
  on an object whose dictionary has all six keys exports four columns only.
\<close>

lemma write_csv_default_persists:
  "heap (state_of (write_csv ''out.csv'' None
      (example_resampled [(''Open'', ''first''), (''Low'', ''min''), (''Close'', ''last''),
         (''Down'', ''last'')]))) write_csv_default =
     [''Open'', ''Low'', ''Close'', ''Down'']
   \<and> columns (df (state_of (write_csv ''two.csv'' None
        ((example_resampled [(''Open'', ''first''), (''High'', ''max''), (''Low'', ''min''),
            (''Close'', ''last''), (''Up'', ''last''), (''Down'', ''last'')])
         \<lparr>heap := heap (state_of (write_csv ''out.csv'' None
             (example_resampled [(''Open'', ''first''), (''Low'', ''min''), (''Close'', ''last''),
                (''Down'', ''last'')])))\<rparr>)))) =
     [''Open'', ''Low'', ''Close'', ''Down'']"
  by code_simp

end
